theory Spec2Isabelle
  imports Main
begin

section \<open>Buffer traits of Beast: a model of \<^verbatim>\<open>boost/beast/core/buffer_traits.hpp\<close>\<close>

text \<open>
  The header defines four alias templates, evaluated by the compiler:
  \<^verbatim>\<open>is_const_buffer_sequence<TN...>\<close>, \<^verbatim>\<open>is_mutable_buffer_sequence<TN...>\<close>,
  \<^verbatim>\<open>buffers_type<TN...>\<close> and \<^verbatim>\<open>buffers_iterator_type<T>\<close>, the last one in two
  variants selected by \<^verbatim>\<open>BOOST_WORKAROUND(BOOST_MSVC, < 1910)\<close>.
  A template over types is modelled as a function over type descriptors, a parameter
  pack as a list, a \<^verbatim>\<open>std::integral_constant<bool, b>\<close> as the boolean \<open>b\<close>, and an
  alias whose substitution can fail as an \<open>option\<close> (\<open>None\<close>: the alias names no type and
  the program is rejected by the compiler).
\<close>

subsection \<open>C++ types\<close>

text \<open>
  Type descriptors. A class is identified by its name; \<^verbatim>\<open>net::const_buffer\<close> and
  \<^verbatim>\<open>net::mutable_buffer\<close> are two classes of Boost.Asio. Qualified types are kept in
  the order \<open>Const (Volatile T)\<close>; a qualifier on an array is written on its element type,
  as the language defines it.
\<close>

datatype cpp_type =
    Void
  | Fundamental string
  | Class string
  | Const cpp_type
  | Volatile cpp_type
  | Pointer cpp_type
  | LRef cpp_type
  | RRef cpp_type
  | Array cpp_type "nat option"
  | Function cpp_type "cpp_type list"

abbreviation net_const_buffer :: cpp_type where
  "net_const_buffer \<equiv> Class ''net::const_buffer''"

abbreviation net_mutable_buffer :: cpp_type where
  "net_mutable_buffer \<equiv> Class ''net::mutable_buffer''"

subsection \<open>The type transformations of the standard library and of the language\<close>

text \<open>\<^verbatim>\<open>std::remove_reference<T>::type\<close>.\<close>

fun std_remove_reference :: "cpp_type \<Rightarrow> cpp_type" where
  "std_remove_reference (LRef T) = T"
| "std_remove_reference (RRef T) = T"
| "std_remove_reference T = T"

text \<open>\<^verbatim>\<open>std::remove_cv<T>::type\<close>: the top-level qualifiers go; those of an array are
  the qualifiers of its elements.\<close>

fun std_remove_cv :: "cpp_type \<Rightarrow> cpp_type" where
  "std_remove_cv (Const T) = std_remove_cv T"
| "std_remove_cv (Volatile T) = std_remove_cv T"
| "std_remove_cv (Array T n) = Array (std_remove_cv T) n"
| "std_remove_cv T = T"

text \<open>
  \<^verbatim>\<open>std::decay<T>::type\<close>: with \<open>U\<close> the type \<open>T\<close> without its reference, an array of
  \<open>E\<close> becomes a pointer to \<open>E\<close>, a function type becomes a pointer to it, and any other
  type loses its top-level qualifiers.
\<close>

definition std_decay :: "cpp_type \<Rightarrow> cpp_type" where
  "std_decay T =
     (let U = std_remove_reference T in
      case U of
        Array E n \<Rightarrow> Pointer E
      | Function R As \<Rightarrow> Pointer U
      | _ \<Rightarrow> std_remove_cv U)"

text \<open>
  The type written \<^verbatim>\<open>T const\<close> for a template parameter \<open>T\<close>: a qualifier added to
  a reference or to a function type is ignored, one added to an array qualifies the
  elements.
\<close>

fun add_const :: "cpp_type \<Rightarrow> cpp_type" where
  "add_const (LRef T) = LRef T"
| "add_const (RRef T) = RRef T"
| "add_const (Function R As) = Function R As"
| "add_const (Const T) = Const T"
| "add_const (Array T n) = Array (add_const T) n"
| "add_const T = Const T"

text \<open>
  The type written \<^verbatim>\<open>T&\<close> for a template parameter \<open>T\<close>: references collapse to an
  lvalue reference, and there is no reference to (qualified) \<^verbatim>\<open>void\<close>.
\<close>

fun lvalue_reference_to :: "cpp_type \<Rightarrow> cpp_type option" where
  "lvalue_reference_to (LRef T) = Some (LRef T)"
| "lvalue_reference_to (RRef T) = Some (LRef T)"
| "lvalue_reference_to T = (if std_remove_cv T = Void then None else Some (LRef T))"

text \<open>
  The expression \<^verbatim>\<open>std::declval<X>()\<close>, whose type is \<^verbatim>\<open>X&&\<close> after reference
  collapsing. The result describes the expression by its type and value category, as
  \<^verbatim>\<open>decltype((e))\<close> does: \<open>LRef U\<close> is an lvalue of type \<open>U\<close> (a function is always
  one), \<open>RRef U\<close> an xvalue of type \<open>U\<close>, and a prvalue of (qualified) \<^verbatim>\<open>void\<close> has
  type \<^verbatim>\<open>void\<close>.
\<close>

fun std_declval :: "cpp_type \<Rightarrow> cpp_type" where
  "std_declval (LRef T) = LRef T"
| "std_declval (RRef T) = RRef T"
| "std_declval (Function R As) = LRef (Function R As)"
| "std_declval T = (if std_remove_cv T = Void then Void else RRef T)"

text \<open>\<^verbatim>\<open>std::conditional<b, T, F>::type\<close>.\<close>

definition std_conditional :: "bool \<Rightarrow> cpp_type \<Rightarrow> cpp_type \<Rightarrow> cpp_type" where
  "std_conditional b T F = (if b then T else F)"

text \<open>\<^verbatim>\<open>mp11::mp_all<B...>\<close> over the \<^verbatim>\<open>value\<close> members of its arguments:
  \<^verbatim>\<open>mp_true\<close> for the empty pack, otherwise the conjunction. The header documents
  both: the alias is \<^verbatim>\<open>std::true_type\<close> "if each specified type meets the
  requirements", and "if this list is empty".\<close>

primrec mp_all :: "bool list \<Rightarrow> bool" where
  "mp_all [] = True"
| "mp_all (b # bs) = (b \<and> mp_all bs)"

subsection \<open>What the header takes from its environment\<close>

text \<open>
  The header includes Boost.Asio and is compiled by some compiler. Neither is part of it,
  so both are parameters of the model:
  \<^item> \<open>msvc_before_1910\<close>: the value of \<^verbatim>\<open>BOOST_WORKAROUND(BOOST_MSVC, < 1910)\<close>;
  \<^item> \<open>net_is_const_buffer_sequence T\<close>, \<open>net_is_mutable_buffer_sequence T\<close>: the
    \<^verbatim>\<open>value\<close> of Asio's traits of these names at the single type \<open>T\<close>;
  \<^item> \<open>net_buffer_sequence_begin X\<close>: the type of the call
    \<^verbatim>\<open>net::buffer_sequence_begin(e)\<close> for an argument expression \<open>e\<close> described by \<open>X\<close>
    (see \<open>std_declval\<close>), or \<open>None\<close> when no overload is viable. It depends on the
    classes the program declares.
\<close>

record env =
  msvc_before_1910 :: bool
  net_is_const_buffer_sequence :: "cpp_type \<Rightarrow> bool"
  net_is_mutable_buffer_sequence :: "cpp_type \<Rightarrow> bool"
  net_buffer_sequence_begin :: "cpp_type \<Rightarrow> cpp_type option"

subsection \<open>The header\<close>

text \<open>
  \<^verbatim>\<open>template<class... TN> using is_const_buffer_sequence =
      mp11::mp_all<net::is_const_buffer_sequence<typename std::decay<TN>::type>...>;\<close>
\<close>

definition is_const_buffer_sequence :: "env \<Rightarrow> cpp_type list \<Rightarrow> bool" where
  "is_const_buffer_sequence e TN =
     mp_all (map (\<lambda>T. net_is_const_buffer_sequence e (std_decay T)) TN)"

text \<open>
  \<^verbatim>\<open>template<class... TN> using is_mutable_buffer_sequence =
      mp11::mp_all<net::is_mutable_buffer_sequence<typename std::decay<TN>::type>...>;\<close>
\<close>

definition is_mutable_buffer_sequence :: "env \<Rightarrow> cpp_type list \<Rightarrow> bool" where
  "is_mutable_buffer_sequence e TN =
     mp_all (map (\<lambda>T. net_is_mutable_buffer_sequence e (std_decay T)) TN)"

text \<open>
  \<^verbatim>\<open>template<class... TN> using buffers_type = typename std::conditional<
      is_mutable_buffer_sequence<TN...>::value,
      net::mutable_buffer, net::const_buffer>::type;\<close>
\<close>

definition buffers_type :: "env \<Rightarrow> cpp_type list \<Rightarrow> cpp_type" where
  "buffers_type e TN =
     std_conditional (is_mutable_buffer_sequence e TN) net_mutable_buffer net_const_buffer"

text \<open>
  The expression \<^verbatim>\<open>decltype(net::buffer_sequence_begin(std::declval<T const&>()))\<close>,
  which the header writes twice: in the primary template of the helper and in the alias
  of the compilers without the workaround.
\<close>

definition begin_of_const_ref :: "env \<Rightarrow> cpp_type \<Rightarrow> cpp_type option" where
  "begin_of_const_ref e T =
     (case lvalue_reference_to (add_const T) of
        None \<Rightarrow> None
      | Some X \<Rightarrow> net_buffer_sequence_begin e (std_declval X))"

text \<open>
  \<^verbatim>\<open>detail::buffers_iterator_type_helper<T>::type\<close>: the two explicit specialisations
  are chosen before the primary template.
\<close>

definition buffers_iterator_type_helper :: "env \<Rightarrow> cpp_type \<Rightarrow> cpp_type option" where
  "buffers_iterator_type_helper e T =
     (if T = net_const_buffer then Some (Pointer (Const net_const_buffer))
      else if T = net_mutable_buffer then Some (Pointer (Const net_mutable_buffer))
      else begin_of_const_ref e T)"

text \<open>The alias under the workaround (the \<^verbatim>\<open>#elif\<close> branch).\<close>

definition buffers_iterator_type_workaround :: "env \<Rightarrow> cpp_type \<Rightarrow> cpp_type option" where
  "buffers_iterator_type_workaround e T = buffers_iterator_type_helper e (std_decay T)"

text \<open>The alias on every other compiler (the \<^verbatim>\<open>#else\<close> branch).\<close>

definition buffers_iterator_type_primary :: "env \<Rightarrow> cpp_type \<Rightarrow> cpp_type option" where
  "buffers_iterator_type_primary e T = begin_of_const_ref e T"

text \<open>\<^verbatim>\<open>buffers_iterator_type<T>\<close> as the preprocessor selects it.\<close>

definition buffers_iterator_type :: "env \<Rightarrow> cpp_type \<Rightarrow> cpp_type option" where
  "buffers_iterator_type e T =
     (if msvc_before_1910 e then buffers_iterator_type_workaround e T
      else buffers_iterator_type_primary e T)"

subsection \<open>A concrete environment\<close>

text \<open>
  An environment for concrete evaluation: Boost.Asio together with a program that uses
  \<^verbatim>\<open>std::vector<net::mutable_buffer>\<close>, \<^verbatim>\<open>std::vector<net::const_buffer>\<close> and
  \<^verbatim>\<open>std::string\<close>.
  \<^item> Asio's traits hold of the two buffer classes (a mutable buffer is also a constant
    buffer sequence, a constant buffer is not a mutable one) and of a class with
    \<^verbatim>\<open>begin\<close> and \<^verbatim>\<open>end\<close> members whose elements convert to the buffer class.
    \<^verbatim>\<open>std::string\<close> has both members, but a \<^verbatim>\<open>char\<close> converts to neither buffer
    class.
  \<^item> \<^verbatim>\<open>net::buffer_sequence_begin\<close> has an overload for each buffer class, taking it
    by reference to const and returning a pointer to const, and two overloads
    \<^verbatim>\<open>(C& c) -> decltype(c.begin())\<close> and \<^verbatim>\<open>(const C& c) -> decltype(c.begin())\<close> for
    every other class: a container gives its \<^verbatim>\<open>iterator\<close> as a non-constant lvalue and
    its \<^verbatim>\<open>const_iterator\<close> as a constant one, whatever its elements are.
\<close>

definition example_containers :: "string list" where
  "example_containers =
     [''std::vector<net::mutable_buffer>'', ''std::vector<net::const_buffer>'', ''std::string'']"

definition example_is_const_buffer_sequence :: "cpp_type \<Rightarrow> bool" where
  "example_is_const_buffer_sequence T =
     (T = net_const_buffer \<or> T = net_mutable_buffer
      \<or> T = Class ''std::vector<net::mutable_buffer>''
      \<or> T = Class ''std::vector<net::const_buffer>'')"

definition example_is_mutable_buffer_sequence :: "cpp_type \<Rightarrow> bool" where
  "example_is_mutable_buffer_sequence T =
     (T = net_mutable_buffer \<or> T = Class ''std::vector<net::mutable_buffer>'')"

fun example_buffer_sequence_begin :: "cpp_type \<Rightarrow> cpp_type option" where
  "example_buffer_sequence_begin (LRef (Const (Class n))) =
     (if n = ''net::const_buffer'' then Some (Pointer (Const net_const_buffer))
      else if n = ''net::mutable_buffer'' then Some (Pointer (Const net_mutable_buffer))
      else if n \<in> set example_containers then Some (Class (n @ ''::const_iterator''))
      else None)"
| "example_buffer_sequence_begin (LRef (Class n)) =
     (if n = ''net::const_buffer'' then Some (Pointer (Const net_const_buffer))
      else if n = ''net::mutable_buffer'' then Some (Pointer (Const net_mutable_buffer))
      else if n \<in> set example_containers then Some (Class (n @ ''::iterator''))
      else None)"
| "example_buffer_sequence_begin X = None"

definition example_env :: "bool \<Rightarrow> env" where
  "example_env w =
     \<lparr> msvc_before_1910 = w,
       net_is_const_buffer_sequence = example_is_const_buffer_sequence,
       net_is_mutable_buffer_sequence = example_is_mutable_buffer_sequence,
       net_buffer_sequence_begin = example_buffer_sequence_begin \<rparr>"

subsection \<open>The aliases when a trait of Asio may be ill-formed\<close>

text \<open>
  Above, Asio's traits are booleans at every type. The instantiation
  \<^verbatim>\<open>net::is_const_buffer_sequence<T>::value\<close> is an expression of its own, though, and
  the header does nothing to guard it. Here it is \<open>Some b\<close> when it is well-formed with
  value \<open>b\<close>, and \<open>None\<close> when instantiating Asio's trait at \<open>T\<close> is itself an error.
\<close>

record traits =
  const_trait :: "cpp_type \<Rightarrow> bool option"
  mutable_trait :: "cpp_type \<Rightarrow> bool option"

text \<open>\<^verbatim>\<open>mp11::mp_all<B...>\<close> needs the \<^verbatim>\<open>value\<close> of every argument (it does not
  short-circuit), so it is ill-formed as soon as one argument is.\<close>

primrec mp_all_inst :: "bool option list \<Rightarrow> bool option" where
  "mp_all_inst [] = Some True"
| "mp_all_inst (b # bs) =
     (case b of
        None \<Rightarrow> None
      | Some x \<Rightarrow> (case mp_all_inst bs of None \<Rightarrow> None | Some y \<Rightarrow> Some (x \<and> y)))"

text \<open>The three aliases of the header over it, as above; \<^verbatim>\<open>std::decay\<close> and
  \<^verbatim>\<open>std::conditional\<close> are defined at every type.\<close>

definition is_const_buffer_sequence_inst :: "traits \<Rightarrow> cpp_type list \<Rightarrow> bool option" where
  "is_const_buffer_sequence_inst a TN = mp_all_inst (map (\<lambda>T. const_trait a (std_decay T)) TN)"

definition is_mutable_buffer_sequence_inst :: "traits \<Rightarrow> cpp_type list \<Rightarrow> bool option" where
  "is_mutable_buffer_sequence_inst a TN =
     mp_all_inst (map (\<lambda>T. mutable_trait a (std_decay T)) TN)"

definition buffers_type_inst :: "traits \<Rightarrow> cpp_type list \<Rightarrow> cpp_type option" where
  "buffers_type_inst a TN =
     (case is_mutable_buffer_sequence_inst a TN of
        None \<Rightarrow> None
      | Some b \<Rightarrow> Some (std_conditional b net_mutable_buffer net_const_buffer))"

subsection \<open>Two further environments\<close>

text \<open>
  The traits of \<open>example_env\<close>, well-formed at every type.
\<close>

definition example_traits :: traits where
  "example_traits =
     \<lparr> const_trait = (\<lambda>T. Some (example_is_const_buffer_sequence T)),
       mutable_trait = (\<lambda>T. Some (example_is_mutable_buffer_sequence T)) \<rparr>"

text \<open>
  The same, but for a class \<^verbatim>\<open>app::opaque\<close> at which instantiating either trait is an
  error, as it is for a trait that looks into the members of its argument when the
  class is declared and not yet defined.
\<close>

definition opaque_traits :: traits where
  "opaque_traits =
     \<lparr> const_trait = (\<lambda>T. if T = Class ''app::opaque'' then None
                          else Some (example_is_const_buffer_sequence T)),
       mutable_trait = (\<lambda>T. if T = Class ''app::opaque'' then None
                          else Some (example_is_mutable_buffer_sequence T)) \<rparr>"

text \<open>
  \<open>example_env\<close> with one more class, \<^verbatim>\<open>app::handles\<close>: a container whose elements are
  of a class that has a conversion function to \<^verbatim>\<open>net::mutable_buffer\<close> and none to
  \<^verbatim>\<open>net::const_buffer\<close>. Asio's traits ask, each for its own buffer class, whether an
  element converts to it implicitly. An element converts to \<^verbatim>\<open>net::mutable_buffer\<close> by
  its conversion function; to reach \<^verbatim>\<open>net::const_buffer\<close> it would need that function
  and then the constructor of \<^verbatim>\<open>net::const_buffer\<close> from a mutable buffer, and an
  implicit conversion uses one user-defined conversion at most. So the mutable trait
  holds of the container and the constant trait does not.
\<close>

definition handles_env :: env where
  "handles_env =
     \<lparr> msvc_before_1910 = False,
       net_is_const_buffer_sequence = example_is_const_buffer_sequence,
       net_is_mutable_buffer_sequence =
         (\<lambda>T. T = Class ''app::handles'' \<or> example_is_mutable_buffer_sequence T),
       net_buffer_sequence_begin = example_buffer_sequence_begin \<rparr>"

section \<open>Properties\<close>

subsection \<open>Auxiliary facts\<close>

lemma mp_all_iff: "mp_all bs \<longleftrightarrow> (\<forall>b\<in>set bs. b)"
  by (induction bs) simp_all

lemma std_decay_Class: "std_decay (Class n) = Class n"
  by (simp add: std_decay_def)

lemma std_decay_Const_Class: "std_decay (Const (Class n)) = Class n"
  by (simp add: std_decay_def)

text \<open>Except on arrays and functions, \<open>std_decay\<close> strips the reference and the
  qualifiers and does nothing else.\<close>

lemma std_decay_strips:
  assumes "\<And>E n. std_remove_reference T \<noteq> Array E n"
    and "\<And>R As. std_remove_reference T \<noteq> Function R As"
  shows "std_decay T = std_remove_cv (std_remove_reference T)"
proof (cases "std_remove_reference T")
  case (Array E n)
  with assms(1) show ?thesis by blast
next
  case (Function R As)
  with assms(2) show ?thesis by blast
qed (simp_all add: std_decay_def)

lemma begin_of_const_ref_Class:
  "begin_of_const_ref e (Class n) = net_buffer_sequence_begin e (LRef (Const (Class n)))"
  by (simp add: begin_of_const_ref_def)

lemma begin_of_const_ref_Const_Class:
  "begin_of_const_ref e (Const (Class n)) = net_buffer_sequence_begin e (LRef (Const (Class n)))"
  by (simp add: begin_of_const_ref_def)

lemma begin_of_const_ref_Void: "begin_of_const_ref e Void = None"
  by (simp add: begin_of_const_ref_def)

lemmas example_defs =
  example_env_def example_is_const_buffer_sequence_def
  example_is_mutable_buffer_sequence_def example_containers_def



text \<open>\<open>mp_all_inst\<close> is ill-formed exactly when an argument is, and is \<open>mp_all\<close> of the
  values otherwise.\<close>

lemma mp_all_inst_None: "mp_all_inst bs = None \<longleftrightarrow> None \<in> set bs"
  by (induction bs) (auto split: option.splits)

lemma mp_all_inst_Some:
  "None \<notin> set bs \<Longrightarrow> mp_all_inst bs = Some (\<forall>b\<in>set bs. b = Some True)"
proof (induction bs)
  case Nil
  show ?case by simp
next
  case (Cons b bs)
  then show ?case by (cases b) auto
qed

text \<open>Where Asio's traits are well-formed the aliases of this layer are the aliases of
  the first one.\<close>

lemma is_const_buffer_sequence_inst_agrees:
  assumes "\<forall>T\<in>set TN. const_trait a (std_decay T)
      = Some (net_is_const_buffer_sequence e (std_decay T))"
  shows "is_const_buffer_sequence_inst a TN = Some (is_const_buffer_sequence e TN)"
  using assms
  by (induction TN) (simp_all add: is_const_buffer_sequence_inst_def is_const_buffer_sequence_def)

lemma is_mutable_buffer_sequence_inst_agrees:
  assumes "\<forall>T\<in>set TN. mutable_trait a (std_decay T)
      = Some (net_is_mutable_buffer_sequence e (std_decay T))"
  shows "is_mutable_buffer_sequence_inst a TN = Some (is_mutable_buffer_sequence e TN)"
  using assms
  by (induction TN)
    (simp_all add: is_mutable_buffer_sequence_inst_def is_mutable_buffer_sequence_def)

lemma buffers_type_inst_agrees:
  assumes "\<forall>T\<in>set TN. mutable_trait a (std_decay T)
      = Some (net_is_mutable_buffer_sequence e (std_decay T))"
  shows "buffers_type_inst a TN = Some (buffers_type e TN)"
  using is_mutable_buffer_sequence_inst_agrees [OF assms]
  by (simp add: buffers_type_inst_def buffers_type_def)

lemma None_in_map: "None \<in> set (map f xs) \<longleftrightarrow> (\<exists>x\<in>set xs. f x = None)"
  by (induction xs) auto

subsection \<open>The capability predicates\<close>

text \<open>
  C1, as stated, fails: the header asks Asio's two traits separately and does not relate
  them. In \<open>handles_env\<close> Asio's mutable trait holds of \<^verbatim>\<open>app::handles\<close> and its
  constant trait does not, and the header classifies the one-element list accordingly:
  mutable, not constant.
\<close>

theorem handles_mutable_not_const:
  "is_mutable_buffer_sequence handles_env [Class ''app::handles'']
   \<and> \<not> is_const_buffer_sequence handles_env [Class ''app::handles'']"
  by (simp add: is_mutable_buffer_sequence_def is_const_buffer_sequence_def std_decay_def
      handles_env_def example_is_const_buffer_sequence_def)

text \<open>
  C1, amended. The header hands monotonicity on from Asio and adds no exception of its
  own: for every list of types such that each decayed element satisfying Asio's mutable
  trait satisfies Asio's constant trait, \<^verbatim>\<open>is_mutable_buffer_sequence\<close> of the list
  implies \<^verbatim>\<open>is_const_buffer_sequence\<close> of the list; and on a single type the header is
  monotone exactly when Asio is at the decayed type.
\<close>

theorem mutable_implies_const_where_asio_does:
  "((\<forall>T\<in>set TN. net_is_mutable_buffer_sequence e (std_decay T)
        \<longrightarrow> net_is_const_buffer_sequence e (std_decay T))
     \<longrightarrow> is_mutable_buffer_sequence e TN \<longrightarrow> is_const_buffer_sequence e TN)
   \<and> ((is_mutable_buffer_sequence e [U] \<longrightarrow> is_const_buffer_sequence e [U])
      \<longleftrightarrow> (net_is_mutable_buffer_sequence e (std_decay U)
            \<longrightarrow> net_is_const_buffer_sequence e (std_decay U)))"
proof -
  have "is_const_buffer_sequence e TN"
    if mono: "\<forall>T\<in>set TN. net_is_mutable_buffer_sequence e (std_decay T)
        \<longrightarrow> net_is_const_buffer_sequence e (std_decay T)"
      and mut: "is_mutable_buffer_sequence e TN"
  proof -
    from mut have "\<forall>T\<in>set TN. net_is_mutable_buffer_sequence e (std_decay T)"
      by (simp add: is_mutable_buffer_sequence_def mp_all_iff)
    with mono have "\<forall>T\<in>set TN. net_is_const_buffer_sequence e (std_decay T)"
      by blast
    then show ?thesis
      by (simp add: is_const_buffer_sequence_def mp_all_iff)
  qed
  moreover have "(is_mutable_buffer_sequence e [U] \<longrightarrow> is_const_buffer_sequence e [U])
      \<longleftrightarrow> (net_is_mutable_buffer_sequence e (std_decay U)
            \<longrightarrow> net_is_const_buffer_sequence e (std_decay U))"
    by (simp add: is_mutable_buffer_sequence_def is_const_buffer_sequence_def)
  ultimately show ?thesis by blast
qed

theorem mutable_implies_const_where_asio_does_witness:
  "is_mutable_buffer_sequence (example_env False)
     [Class ''std::vector<net::mutable_buffer>'', LRef (Const net_mutable_buffer)]
   \<and> is_const_buffer_sequence (example_env False)
     [Class ''std::vector<net::mutable_buffer>'', LRef (Const net_mutable_buffer)]"
proof -
  have mono: "\<forall>T\<in>set [Class ''std::vector<net::mutable_buffer>'',
        LRef (Const net_mutable_buffer)].
      net_is_mutable_buffer_sequence (example_env False) (std_decay T)
        \<longrightarrow> net_is_const_buffer_sequence (example_env False) (std_decay T)"
    by (simp add: std_decay_def example_defs)
  have mut: "is_mutable_buffer_sequence (example_env False)
     [Class ''std::vector<net::mutable_buffer>'', LRef (Const net_mutable_buffer)]"
    by (simp add: is_mutable_buffer_sequence_def std_decay_def example_defs)
  from mutable_implies_const_where_asio_does [of
      "[Class ''std::vector<net::mutable_buffer>'', LRef (Const net_mutable_buffer)]"
      "example_env False" Void] mono mut
  show ?thesis by blast
qed

text \<open>
  C3. For the empty list of types both predicates are true:
  \<^verbatim>\<open>is_const_buffer_sequence<>\<close> and \<^verbatim>\<open>is_mutable_buffer_sequence<>\<close> are
  \<^verbatim>\<open>std::true_type\<close>, in every environment.
\<close>

theorem empty_pack_is_both:
  "is_const_buffer_sequence e [] \<and> is_mutable_buffer_sequence e []"
  by (simp add: is_const_buffer_sequence_def is_mutable_buffer_sequence_def)

text \<open>
  C5. Each predicate is an all-of over the list: \<^verbatim>\<open>is_const_buffer_sequence<T1..Tn>\<close>
  is true exactly when every \<^verbatim>\<open>std::decay<Ti>::type\<close> satisfies Asio's trait for
  constant buffer sequences, and \<^verbatim>\<open>is_mutable_buffer_sequence<T1..Tn>\<close> exactly when
  every decayed \<open>Ti\<close> satisfies the trait for mutable ones.
\<close>

theorem all_of_per_type:
  "(is_const_buffer_sequence e TN
      \<longleftrightarrow> (\<forall>T\<in>set TN. net_is_const_buffer_sequence e (std_decay T)))
   \<and> (is_mutable_buffer_sequence e TN
      \<longleftrightarrow> (\<forall>T\<in>set TN. net_is_mutable_buffer_sequence e (std_decay T)))"
  by (simp add: is_const_buffer_sequence_def is_mutable_buffer_sequence_def mp_all_iff)

theorem all_of_per_type_witness:
  "is_const_buffer_sequence (example_env False)
     [LRef (Const (Class ''std::vector<net::const_buffer>'')), Const net_mutable_buffer]
   \<and> \<not> is_mutable_buffer_sequence (example_env False)
     [LRef (Const (Class ''std::vector<net::const_buffer>'')), Const net_mutable_buffer]"
  using all_of_per_type [of "example_env False"
      "[LRef (Const (Class ''std::vector<net::const_buffer>'')), Const net_mutable_buffer]"]
  by (simp add: std_decay_def example_defs)

subsection \<open>The buffer type of a list of sequences\<close>



text \<open>
  C4. For the empty list of types \<^verbatim>\<open>buffers_type<>\<close> is \<^verbatim>\<open>net::mutable_buffer\<close>.
\<close>

theorem buffers_type_empty: "buffers_type e [] = net_mutable_buffer"
  by (simp add: buffers_type_def std_conditional_def is_mutable_buffer_sequence_def)

text \<open>
  C10, as stated, fails: \<^verbatim>\<open>buffers_type\<close> instantiates Asio's mutable trait at every
  decayed element of the list, unguarded. In \<open>opaque_traits\<close> that instantiation is an
  error at \<^verbatim>\<open>app::opaque\<close>, and then \<^verbatim>\<open>buffers_type<app::opaque>\<close> names no type.
\<close>

theorem buffers_type_of_opaque_fails:
  "buffers_type_inst opaque_traits [Class ''app::opaque''] = None"
  by (simp add: buffers_type_inst_def is_mutable_buffer_sequence_inst_def std_decay_def
      opaque_traits_def)

text \<open>
  C10, amended. \<^verbatim>\<open>buffers_type<T1..Tn>\<close> adds no failure of its own: it names no type
  exactly when instantiating Asio's mutable trait is an error at some decayed \<open>Ti\<close>. For
  every other list it names one of the two buffer classes: \<^verbatim>\<open>net::mutable_buffer\<close> when
  the trait is true of every decayed element, and \<^verbatim>\<open>net::const_buffer\<close> otherwise, in
  particular when the list contains a type of which the trait is false, a buffer
  sequence or not. Nothing is rejected here.
\<close>

theorem buffers_type_fails_only_with_trait:
  "(buffers_type_inst a TN = None \<longleftrightarrow> (\<exists>T\<in>set TN. mutable_trait a (std_decay T) = None))
   \<and> ((\<forall>T\<in>set TN. mutable_trait a (std_decay T) \<noteq> None)
       \<longrightarrow> buffers_type_inst a TN
           = Some (if \<forall>T\<in>set TN. mutable_trait a (std_decay T) = Some True
                   then net_mutable_buffer else net_const_buffer))
   \<and> ((\<forall>T\<in>set TN. mutable_trait a (std_decay T) \<noteq> None)
        \<and> U \<in> set TN \<and> mutable_trait a (std_decay U) = Some False
       \<longrightarrow> buffers_type_inst a TN = Some net_const_buffer)"
proof -
  let ?bs = "map (\<lambda>T. mutable_trait a (std_decay T)) TN"
  have none: "buffers_type_inst a TN = None \<longleftrightarrow> (\<exists>T\<in>set TN. mutable_trait a (std_decay T) = None)"
  proof -
    have "buffers_type_inst a TN = None \<longleftrightarrow> mp_all_inst ?bs = None"
      by (simp add: buffers_type_inst_def is_mutable_buffer_sequence_inst_def
          split: option.splits)
    then show ?thesis
      by (simp only: mp_all_inst_None None_in_map)
  qed
  have some: "buffers_type_inst a TN
      = Some (if \<forall>T\<in>set TN. mutable_trait a (std_decay T) = Some True
              then net_mutable_buffer else net_const_buffer)"
    if wf: "\<forall>T\<in>set TN. mutable_trait a (std_decay T) \<noteq> None"
  proof -
    from wf have "None \<notin> set ?bs" by (simp only: None_in_map) blast
    then have "mp_all_inst ?bs = Some (\<forall>b\<in>set ?bs. b = Some True)"
      by (rule mp_all_inst_Some)
    then show ?thesis
      by (simp add: buffers_type_inst_def is_mutable_buffer_sequence_inst_def
          std_conditional_def)
  qed
  have "buffers_type_inst a TN = Some net_const_buffer"
    if wf: "\<forall>T\<in>set TN. mutable_trait a (std_decay T) \<noteq> None"
      and U: "U \<in> set TN" "mutable_trait a (std_decay U) = Some False"
  proof -
    from U have "\<not> (\<forall>T\<in>set TN. mutable_trait a (std_decay T) = Some True)" by force
    with some [OF wf] show ?thesis by simp
  qed
  with none some show ?thesis by blast
qed

text \<open>The witness: \<^verbatim>\<open>void\<close> is no buffer sequence and has no iterator type, and a list
  containing it still has a buffer type.\<close>

theorem buffers_type_fails_only_with_trait_witness:
  "buffers_iterator_type (example_env False) Void = None
   \<and> mutable_trait example_traits (std_decay Void) = Some False
   \<and> buffers_type_inst example_traits [Class ''std::vector<net::mutable_buffer>'', Void]
       = Some net_const_buffer"
proof -
  have wf: "\<forall>T\<in>set [Class ''std::vector<net::mutable_buffer>'', Void].
      mutable_trait example_traits (std_decay T) \<noteq> None"
    by (simp add: example_traits_def)
  have m: "Void \<in> set [Class ''std::vector<net::mutable_buffer>'', Void]"
    by simp
  have c: "mutable_trait example_traits (std_decay Void) = Some False"
    by (simp add: std_decay_def example_traits_def example_is_mutable_buffer_sequence_def)
  have v: "buffers_iterator_type (example_env False) Void = None"
    by (simp add: buffers_iterator_type_def buffers_iterator_type_primary_def
        begin_of_const_ref_Void example_env_def)
  from buffers_type_fails_only_with_trait [of example_traits
      "[Class ''std::vector<net::mutable_buffer>'', Void]" Void] wf m c v
  show ?thesis by blast
qed

subsection \<open>The iterator type of a sequence\<close>

text \<open>
  C6. Under the workaround the two buffer classes are looked up in a table:
  \<^verbatim>\<open>buffers_iterator_type<net::const_buffer>\<close> is \<^verbatim>\<open>net::const_buffer const*\<close> and
  \<^verbatim>\<open>buffers_iterator_type<net::mutable_buffer>\<close> is \<^verbatim>\<open>net::mutable_buffer const*\<close>.
  The alias hands the decayed type to the helper, and for any type other than the two
  the helper is the deduction from \<^verbatim>\<open>net::buffer_sequence_begin\<close> that the other
  compilers use.
\<close>

theorem workaround_lookup_table:
  assumes "msvc_before_1910 e"
  shows "buffers_iterator_type e net_const_buffer = Some (Pointer (Const net_const_buffer))
    \<and> buffers_iterator_type e net_mutable_buffer = Some (Pointer (Const net_mutable_buffer))
    \<and> buffers_iterator_type e T = buffers_iterator_type_helper e (std_decay T)
    \<and> (T \<noteq> net_const_buffer \<and> T \<noteq> net_mutable_buffer
        \<longrightarrow> buffers_iterator_type_helper e T = buffers_iterator_type_primary e T)"
  using assms
  by (simp add: buffers_iterator_type_def buffers_iterator_type_workaround_def
      buffers_iterator_type_helper_def buffers_iterator_type_primary_def std_decay_Class)

theorem workaround_lookup_table_witness:
  "buffers_iterator_type (example_env True) net_const_buffer
     = Some (Pointer (Const net_const_buffer))
   \<and> buffers_iterator_type (example_env True) net_mutable_buffer
     = Some (Pointer (Const net_mutable_buffer))
   \<and> buffers_iterator_type (example_env True) (Class ''std::vector<net::const_buffer>'')
     = Some (Class ''std::vector<net::const_buffer>::const_iterator'')"
proof -
  have w: "msvc_before_1910 (example_env True)"
    by (simp add: example_env_def)
  have p: "buffers_iterator_type_primary (example_env True)
        (Class ''std::vector<net::const_buffer>'')
      = Some (Class ''std::vector<net::const_buffer>::const_iterator'')"
    by (simp add: buffers_iterator_type_primary_def begin_of_const_ref_def example_defs)
  from workaround_lookup_table [OF w, of "Class ''std::vector<net::const_buffer>''"] p
  show ?thesis
    by (simp add: std_decay_Class)
qed

text \<open>
  C7. The two branches of the preprocessor define one alias under one description, the
  iterator type of the buffer sequence \<open>T\<close>, and so ought to name the same type. They do
  not at \<open>T\<close> = \<^verbatim>\<open>std::vector<net::mutable_buffer>&\<close>. The \<^verbatim>\<open>#elif\<close> branch decays \<open>T\<close>
  to the vector, the helper calls \<^verbatim>\<open>net::buffer_sequence_begin\<close> on a constant lvalue
  of it, and the result is the vector's \<^verbatim>\<open>const_iterator\<close>. The \<^verbatim>\<open>#else\<close> branch
  writes \<^verbatim>\<open>T const&\<close> with the undecayed \<open>T\<close>: the qualifier on a reference is ignored
  and the references collapse, so the call is on a non-constant lvalue and the result
  is the vector's \<^verbatim>\<open>iterator\<close>. Both branches name a type, and the two types differ.
\<close>

theorem paths_disagree_on_reference:
  "buffers_iterator_type_workaround (example_env True)
       (LRef (Class ''std::vector<net::mutable_buffer>''))
     = Some (Class ''std::vector<net::mutable_buffer>::const_iterator'')
   \<and> buffers_iterator_type_primary (example_env True)
       (LRef (Class ''std::vector<net::mutable_buffer>''))
     = Some (Class ''std::vector<net::mutable_buffer>::iterator'')
   \<and> buffers_iterator_type_workaround (example_env True)
       (LRef (Class ''std::vector<net::mutable_buffer>''))
     \<noteq> buffers_iterator_type_primary (example_env True)
       (LRef (Class ''std::vector<net::mutable_buffer>''))"
  by (simp add: buffers_iterator_type_workaround_def buffers_iterator_type_helper_def
      buffers_iterator_type_primary_def begin_of_const_ref_def std_decay_def example_defs)

text \<open>
  C8. For a class \<open>T\<close> with a \<^verbatim>\<open>begin\<close> operation, with or without \<^verbatim>\<open>const\<close>,
  \<^verbatim>\<open>buffers_iterator_type<T>\<close> is the type that \<^verbatim>\<open>net::buffer_sequence_begin\<close> returns
  for a constant lvalue of the class: the container's own iterator type, not an entry
  of the lookup table. This holds on both branches of the preprocessor; under the
  workaround the two buffer classes are excepted, which the table answers.
\<close>

theorem sequence_iterator_is_begin:
  assumes cls: "T = Class n \<or> T = Const (Class n)"
    and other: "msvc_before_1910 e
      \<longrightarrow> n \<noteq> ''net::const_buffer'' \<and> n \<noteq> ''net::mutable_buffer''"
  shows "buffers_iterator_type e T = net_buffer_sequence_begin e (LRef (Const (Class n)))"
proof (cases "msvc_before_1910 e")
  case True
  from cls have "std_decay T = Class n"
    by (auto simp add: std_decay_Class std_decay_Const_Class)
  with True other show ?thesis
    by (simp add: buffers_iterator_type_def buffers_iterator_type_workaround_def
        buffers_iterator_type_helper_def begin_of_const_ref_Class)
next
  case False
  from cls have "begin_of_const_ref e T = net_buffer_sequence_begin e (LRef (Const (Class n)))"
    by (auto simp add: begin_of_const_ref_Class begin_of_const_ref_Const_Class)
  with False show ?thesis
    by (simp add: buffers_iterator_type_def buffers_iterator_type_primary_def)
qed

theorem sequence_iterator_is_begin_witness:
  "buffers_iterator_type (example_env True) (Class ''std::vector<net::mutable_buffer>'')
     = Some (Class ''std::vector<net::mutable_buffer>::const_iterator'')
   \<and> buffers_iterator_type (example_env True) (Class ''std::vector<net::mutable_buffer>'')
     \<noteq> Some (Pointer (Const net_mutable_buffer))"
proof -
  have other: "msvc_before_1910 (example_env True)
      \<longrightarrow> ''std::vector<net::mutable_buffer>'' \<noteq> ''net::const_buffer''
        \<and> ''std::vector<net::mutable_buffer>'' \<noteq> ''net::mutable_buffer''"
    by simp
  have cls:
    "Class ''std::vector<net::mutable_buffer>'' = Class ''std::vector<net::mutable_buffer>''
     \<or> Class ''std::vector<net::mutable_buffer>''
       = Const (Class ''std::vector<net::mutable_buffer>'')"
    by simp
  from sequence_iterator_is_begin [OF cls other] show ?thesis
    by (simp add: example_defs)
qed




end
